theory Spec2Isabelle
  imports Complex_Main "HOL-Library.Sublist" "HOL-Library.Multiset"
begin

section \<open>Values loaded from an uploaded JSON file\<close>

text \<open>
  \<^verbatim>\<open>json.load\<close> turns a JSON document into Python values: \<^verbatim>\<open>None\<close>, \<^verbatim>\<open>bool\<close>,
  \<^verbatim>\<open>int\<close>, \<^verbatim>\<open>float\<close>, \<^verbatim>\<open>str\<close>, \<^verbatim>\<open>list\<close> and \<^verbatim>\<open>dict\<close>. A dict is kept as the list of
  its items in insertion order; a key is looked up with \<open>map_of\<close>. A float is a finite
  rational, an infinity or a NaN (the decoder accepts all of them). A string is the list of
  the bytes of its UTF-8 form: the program looks only for ASCII words and characters in it,
  and those never occur inside the encoding of another character.
\<close>

datatype pyfloat = Finite rat | PosInf | NegInf | NaN

datatype json =
    JNull
  | JBool bool
  | JInt int
  | JFloat pyfloat
  | JString string
  | JArray "json list"
  | JObject "(string \<times> json) list"

text \<open>
  The exceptions the program can meet, with the text \<^verbatim>\<open>str(e)\<close> gives. The message texts
  are those of CPython 3.12; other versions word some of them differently.
\<close>

datatype exn =
    TypeError string
  | KeyError string
  | AttributeError string
  | LoadError string

fun exn_str :: "exn \<Rightarrow> string" where
  "exn_str (TypeError s) = s"
| "exn_str (KeyError k) = [CHR 0x27] @ k @ [CHR 0x27]"
| "exn_str (AttributeError s) = s"
| "exn_str (LoadError s) = s"

text \<open>Sequencing of computations that may raise: the first exception wins.\<close>

definition and_then :: "exn + 'a \<Rightarrow> ('a \<Rightarrow> exn + 'b) \<Rightarrow> exn + 'b" where
  "and_then r f = (case r of Inl e \<Rightarrow> Inl e | Inr x \<Rightarrow> f x)"

fun type_name :: "json \<Rightarrow> string" where
  "type_name JNull = ''NoneType''"
| "type_name (JBool _) = ''bool''"
| "type_name (JInt _) = ''int''"
| "type_name (JFloat _) = ''float''"
| "type_name (JString _) = ''str''"
| "type_name (JArray _) = ''list''"
| "type_name (JObject _) = ''dict''"

text \<open>Python truthiness (\<^verbatim>\<open>if x\<close>, \<^verbatim>\<open>not x\<close>, \<^verbatim>\<open>a and b\<close>).\<close>

fun truthy :: "json \<Rightarrow> bool" where
  "truthy JNull = False"
| "truthy (JBool b) = b"
| "truthy (JInt i) = (i \<noteq> 0)"
| "truthy (JFloat f) = (f \<noteq> Finite 0)"
| "truthy (JString s) = (s \<noteq> [])"
| "truthy (JArray xs) = (xs \<noteq> [])"
| "truthy (JObject kvs) = (kvs \<noteq> [])"

text \<open>
  The membership operator \<^verbatim>\<open>key in obj\<close> for a string \<^verbatim>\<open>key\<close>: key lookup on a dict,
  substring search on a string (\<open>sublist\<close> is the contiguous one), element search on a list,
  and a \<^verbatim>\<open>TypeError\<close> on every other value.
\<close>

fun py_in :: "string \<Rightarrow> json \<Rightarrow> exn + bool" where
  "py_in key (JObject kvs) = Inr (key \<in> set (map fst kvs))"
| "py_in key (JString s) = Inr (sublist key s)"
| "py_in key (JArray xs) = Inr (JString key \<in> set xs)"
| "py_in key v =
     Inl (TypeError (''argument of type '' @ [CHR 0x27] @ type_name v @ [CHR 0x27] @ '' is not iterable''))"

text \<open>Subscription \<^verbatim>\<open>obj[key]\<close> with a string key.\<close>

fun py_getitem :: "json \<Rightarrow> string \<Rightarrow> exn + json" where
  "py_getitem (JObject kvs) key =
     (case map_of kvs key of Some v \<Rightarrow> Inr v | None \<Rightarrow> Inl (KeyError key))"
| "py_getitem (JString s) key =
     Inl (TypeError (''string indices must be integers, not '' @ [CHR 0x27] @ ''str'' @ [CHR 0x27]))"
| "py_getitem (JArray xs) key = Inl (TypeError ''list indices must be integers or slices, not str'')"
| "py_getitem v key =
     Inl (TypeError ([CHR 0x27] @ type_name v @ [CHR 0x27] @ '' object is not subscriptable''))"

text \<open>The method call \<^verbatim>\<open>obj.get(key, default)\<close>, which only a dict has.\<close>

fun py_get :: "json \<Rightarrow> string \<Rightarrow> json \<Rightarrow> exn + json" where
  "py_get (JObject kvs) key dflt =
     Inr (case map_of kvs key of Some v \<Rightarrow> v | None \<Rightarrow> dflt)"
| "py_get v key dflt =
     Inl (AttributeError ([CHR 0x27] @ type_name v @ [CHR 0x27] @ '' object has no attribute ''
        @ [CHR 0x27] @ ''get'' @ [CHR 0x27]))"

text \<open>Iteration \<^verbatim>\<open>for x in obj\<close>: list elements, the characters of a string, the keys of a dict.\<close>

fun py_iter :: "json \<Rightarrow> exn + json list" where
  "py_iter (JArray xs) = Inr xs"
| "py_iter (JString s) = Inr (map (\<lambda>c. JString [c]) s)"
| "py_iter (JObject kvs) = Inr (map (\<lambda>kv. JString (fst kv)) kvs)"
| "py_iter v =
     Inl (TypeError ([CHR 0x27] @ type_name v @ [CHR 0x27] @ '' object is not iterable''))"

section \<open>Validation: \<^verbatim>\<open>parse_conversation\<close>\<close>

text \<open>What the program shows through \<^verbatim>\<open>st.error\<close> and \<^verbatim>\<open>st.success\<close>, in order.\<close>

datatype ui_event = Error string | Success string

definition not_a_list_msg :: string where
  "not_a_list_msg = ''Invalid conversation format. Expected a list of messages.''"

definition missing_field_msg :: string where
  "missing_field_msg =
     ''Invalid message format. Each message must have '' @ [CHR 0x27] @ ''content'' @ [CHR 0x27]
     @ '' and '' @ [CHR 0x27] @ ''role'' @ [CHR 0x27] @ '' fields.''"

definition parse_error_msg :: "exn \<Rightarrow> string" where
  "parse_error_msg e = ''Error parsing data: '' @ exn_str e"

text \<open>
  The loop of lines 37 to 40. \<open>Inr True\<close>: every message passed; \<open>Inr False\<close>: a message
  made the condition \<^verbatim>\<open>'content' not in msg or 'role' not in msg\<close> true; \<open>Inl e\<close>: the
  membership test raised \<open>e\<close>.
\<close>

fun check_messages :: "json list \<Rightarrow> exn + bool" where
  "check_messages [] = Inr True"
| "check_messages (msg # rest) =
     and_then (py_in ''content'' msg) (\<lambda>c.
       if \<not> c then Inr False
       else and_then (py_in ''role'' msg) (\<lambda>r.
         if \<not> r then Inr False else check_messages rest))"

text \<open>The result is the pair of what was shown and the list returned.\<close>

definition parse_conversation :: "json \<Rightarrow> ui_event list \<times> json list" where
  "parse_conversation data =
     (let msgs = (case data of JArray xs \<Rightarrow> xs | _ \<Rightarrow> []) in
      if msgs = [] then ([Error not_a_list_msg], [])
      else (case check_messages msgs of
              Inr False \<Rightarrow> ([Error missing_field_msg], [])
            | Inr True \<Rightarrow> ([], msgs)
            | Inl e \<Rightarrow> ([Error (parse_error_msg e)], [])))"

section \<open>The upload step of \<^verbatim>\<open>main\<close> and the session state\<close>

record session_state =
  messages :: "json list"
  conversation_history :: "json list"

definition init_session :: session_state where
  "init_session = \<lparr>messages = [], conversation_history = []\<rparr>"

text \<open>
  Lines 85 to 94. The uploader gives no file (\<open>None\<close>), or a file on which \<^verbatim>\<open>json.load\<close>
  raises (\<open>Some (Inl e)\<close>) or returns a value (\<open>Some (Inr data)\<close>).
\<close>

definition main_upload :: "(exn + json) option \<Rightarrow> session_state \<Rightarrow> ui_event list \<times> session_state" where
  "main_upload uploaded_file s =
     (case uploaded_file of
        None \<Rightarrow> ([], s)
      | Some (Inl e) \<Rightarrow> ([Error (''Error loading file: '' @ exn_str e)], s)
      | Some (Inr data) \<Rightarrow>
          (case parse_conversation data of (shown, msgs) \<Rightarrow>
             if msgs \<noteq> [] then
               (shown @ [Success ''File uploaded successfully!''],
                s\<lparr>messages := msgs, conversation_history := msgs\<rparr>)
             else (shown, s)))"

text \<open>The session states the program can be in: the initial one, and any one after an upload step.\<close>

inductive reachable :: "session_state \<Rightarrow> bool" where
  start: "reachable init_session"
| upload: "reachable s \<Longrightarrow> reachable (snd (main_upload u s))"

section \<open>Analysis: \<^verbatim>\<open>analyze_conversation\<close>\<close>

text \<open>
  The condition \<^verbatim>\<open>key in msg and msg[key]\<close> of lines 59, 60 and 68, read as a truth value.
\<close>

definition has_truthy_field :: "string \<Rightarrow> json \<Rightarrow> exn + bool" where
  "has_truthy_field key msg =
     and_then (py_in key msg) (\<lambda>present.
       if present then and_then (py_getitem msg key) (\<lambda>v. Inr (truthy v)) else Inr False)"

text \<open>\<^verbatim>\<open>sum(1 for msg in messages if key in msg and msg[key])\<close>, lines 59 and 60.\<close>

fun count_messages_with :: "string \<Rightarrow> json list \<Rightarrow> exn + nat" where
  "count_messages_with key [] = Inr 0"
| "count_messages_with key (msg # rest) =
     and_then (has_truthy_field key msg) (\<lambda>b.
       and_then (count_messages_with key rest) (\<lambda>n.
         Inr ((if b then 1 else 0) + n)))"

text \<open>The inner loop of lines 69 to 71 over the entries of one \<^verbatim>\<open>tool_calls\<close> value.\<close>

fun names_of_entries :: "json list \<Rightarrow> exn + json list" where
  "names_of_entries [] = Inr []"
| "names_of_entries (tool_call # rest) =
     and_then (py_in ''function'' tool_call) (\<lambda>present.
       and_then
         (if present then
            and_then (py_getitem tool_call ''function'') (\<lambda>f.
              and_then (py_get f ''name'' (JString ''unknown'')) (\<lambda>n. Inr [n]))
          else Inr [])
         (\<lambda>ns. and_then (names_of_entries rest) (\<lambda>more. Inr (ns @ more))))"

text \<open>The outer loop of lines 67 to 71: the list \<^verbatim>\<open>tool_calls\<close> of names it builds.\<close>

fun tool_call_names :: "json list \<Rightarrow> exn + json list" where
  "tool_call_names [] = Inr []"
| "tool_call_names (msg # rest) =
     and_then (has_truthy_field ''tool_calls'' msg) (\<lambda>b.
       and_then
         (if b then
            and_then (py_getitem msg ''tool_calls'') (\<lambda>tcs.
              and_then (py_iter tcs) names_of_entries)
          else Inr [])
         (\<lambda>ns. and_then (tool_call_names rest) (\<lambda>more. Inr (ns @ more))))"

text \<open>
  Modelled from the spec: \<^verbatim>\<open>pandas.Series.value_counts\<close> is library code, not part of
  the repository. The spec's words are "count occurrences per distinct name, ordered
  descending by count". The model lists each distinct value once with the number of its
  occurrences, most frequent first; values with equal counts stand in the order of their
  first occurrence (the library leaves that order open). On a list of strings, which is what
  the data model gives a tool name, this is the table the library returns; what the library
  does with null, numbers or nested values is not modelled, and the theorems about the
  distribution assume string names.
\<close>

definition value_counts :: "'a list \<Rightarrow> ('a \<times> nat) list" where
  "value_counts xs =
     sort_key (\<lambda>p. - int (snd p)) (map (\<lambda>x. (x, count_list xs x)) (rev (remdups (rev xs))))"

text \<open>
  The two data-frame computations, line 56 (with the construction of the frame, line 53)
  and line 63, are library code working on floating-point columns. They are parameters of
  the model: functions of the message list that return a value or raise.
\<close>

record ('mc, 'al) pandas =
  role_value_counts :: "json list \<Rightarrow> exn + 'mc"
  role_avg_length :: "json list \<Rightarrow> exn + 'al"

type_synonym ('mc, 'al) analysis =
  "'mc option \<times> 'al option \<times> nat option \<times> (json \<times> nat) list option"

text \<open>
  Lines 47 to 75. The result is the tuple \<^verbatim>\<open>message_counts, avg_length, tool_calls_count,
  tool_distribution\<close>; Python's \<^verbatim>\<open>None\<close> is \<open>None\<close>. The local \<^verbatim>\<open>tool_responses_count\<close> is
  computed and not returned.
\<close>

definition analyze_conversation ::
  "('mc, 'al) pandas \<Rightarrow> json list \<Rightarrow> exn + ('mc, 'al) analysis" where
  "analyze_conversation pd msgs =
     (if msgs = [] then Inr (None, None, None, None)
      else
        and_then (role_value_counts pd msgs) (\<lambda>message_counts.
        and_then (count_messages_with ''tool_calls'' msgs) (\<lambda>tool_calls_count.
        and_then (count_messages_with ''tool_responses'' msgs) (\<lambda>tool_responses_count.
        and_then (role_avg_length pd msgs) (\<lambda>avg_length.
        and_then (tool_call_names msgs) (\<lambda>tool_calls.
          Inr (Some message_counts, Some avg_length, Some tool_calls_count,
               if tool_calls \<noteq> [] then Some (value_counts tool_calls) else None)))))))"

section \<open>Text normalisation: \<^verbatim>\<open>normalize_text\<close>\<close>

text \<open>
  \<^verbatim>\<open>re.sub(r'\*\*(.+?)\*\*', r'\1', text)\<close>. The matcher is written for any meaning \<open>dot\<close>
  of the pattern's \<^verbatim>\<open>.\<close>. \<open>find_close dot s\<close> continues the lazy group after its first character:
  at the first \<^verbatim>\<open>**\<close> it stops, giving the rest of the group and the text after the closing
  marker; a character that \<open>dot\<close> refuses, or the end of the text, means no match.
\<close>

fun find_close :: "(char \<Rightarrow> bool) \<Rightarrow> string \<Rightarrow> (string \<times> string) option" where
  "find_close dot (c1 # c2 # cs) =
     (if c1 = CHR ''*'' \<and> c2 = CHR ''*'' then Some ([], cs)
      else if \<not> dot c1 then None
      else map_option (\<lambda>(body, rest). (c1 # body, rest)) (find_close dot (c2 # cs)))"
| "find_close dot cs = None"

text \<open>A match of the whole pattern at the start of the text: the group and the text after it.\<close>

fun match_bold :: "(char \<Rightarrow> bool) \<Rightarrow> string \<Rightarrow> (string \<times> string) option" where
  "match_bold dot (a # b # c # cs) =
     (if a = CHR ''*'' \<and> b = CHR ''*'' \<and> dot c
      then map_option (\<lambda>(body, rest). (c # body, rest)) (find_close dot cs)
      else None)"
| "match_bold dot cs = None"

text \<open>
  The substitution: at each position from the left, a match is replaced by its group and the
  scan goes on after it; without a match the character is kept.
\<close>

function sub_bold :: "(char \<Rightarrow> bool) \<Rightarrow> string \<Rightarrow> string" where
  "sub_bold dot [] = []"
| "sub_bold dot (c # cs) =
     (case match_bold dot (c # cs) of
        Some (body, rest) \<Rightarrow> body @ sub_bold dot rest
      | None \<Rightarrow> c # sub_bold dot cs)"
  by pat_completeness auto
termination
proof (relation "measure (\<lambda>(dot, s). length s)")
  show "wf (measure (\<lambda>(dot, s). length s))" by simp
next
  fix dot :: "char \<Rightarrow> bool" and c :: char and cs x2 body rest
  assume m: "match_bold dot (c # cs) = Some x2" and x2: "(body, rest) = x2"
  have close: "\<And>b r. find_close dot s = Some (b, r) \<Longrightarrow> length r < length s" for s
  proof (induction dot s rule: find_close.induct)
    case (1 dot c1 c2 cs)
    then show ?case by (auto split: if_splits)
  qed simp_all
  from m x2 have "length rest < length (c # cs)"
    by (cases "(dot, c # cs)" rule: match_bold.cases) (auto split: if_splits dest: close)
  then show "((dot, rest), (dot, c # cs)) \<in> measure (\<lambda>(dot, s). length s)" by simp
next
  fix dot :: "char \<Rightarrow> bool" and c :: char and cs
  show "((dot, cs), (dot, c # cs)) \<in> measure (\<lambda>(dot, s). length s)" by simp
qed

text \<open>Without the flag \<^verbatim>\<open>re.DOTALL\<close> the pattern's \<^verbatim>\<open>.\<close> is any character but the line feed.\<close>

definition re_dot :: "char \<Rightarrow> bool" where
  "re_dot c = (c \<noteq> CHR 0x0A)"

definition re_sub_bold :: "string \<Rightarrow> string" where
  "re_sub_bold s = sub_bold re_dot s"

text \<open>Lines 14 to 20. \<^verbatim>\<open>re.sub\<close> raises a \<^verbatim>\<open>TypeError\<close> on a value that is not a string.\<close>

definition normalize_text :: "json \<Rightarrow> exn + json" where
  "normalize_text text =
     (if \<not> truthy text then Inr text
      else (case text of
              JString s \<Rightarrow> Inr (JString (re_sub_bold s))
            | _ \<Rightarrow> Inl (TypeError (''expected string or bytes-like object, got ''
                       @ [CHR 0x27] @ type_name text @ [CHR 0x27]))))"

section \<open>The vocabulary of the specification\<close>

text \<open>A message of the data model is a mapping; \<open>field k m\<close> is its value under the key \<open>k\<close>.\<close>

fun is_mapping :: "json \<Rightarrow> bool" where
  "is_mapping (JObject kvs) = True"
| "is_mapping v = False"

fun is_list :: "json \<Rightarrow> bool" where
  "is_list (JArray xs) = True"
| "is_list v = False"

fun is_string :: "json \<Rightarrow> bool" where
  "is_string (JString s) = True"
| "is_string v = False"

fun field :: "string \<Rightarrow> json \<Rightarrow> json option" where
  "field k (JObject kvs) = map_of kvs k"
| "field k v = None"

text \<open>A valid message: a mapping that has both a \<^verbatim>\<open>role\<close> and a \<^verbatim>\<open>content\<close> key.\<close>

definition is_message :: "json \<Rightarrow> bool" where
  "is_message m = (is_mapping m \<and> field ''role'' m \<noteq> None \<and> field ''content'' m \<noteq> None)"

text \<open>What the validation loop really asks of an element: both membership tests answer yes.\<close>

definition passes_check :: "json \<Rightarrow> bool" where
  "passes_check m = (py_in ''content'' m = Inr True \<and> py_in ''role'' m = Inr True)"

text \<open>An element on which the membership operator is defined: a mapping, a string or a list.\<close>

fun supports_membership :: "json \<Rightarrow> bool" where
  "supports_membership (JObject kvs) = True"
| "supports_membership (JString s) = True"
| "supports_membership (JArray xs) = True"
| "supports_membership v = False"

text \<open>"The field \<open>k\<close> is present and non-empty": present, and not a falsy value.\<close>

definition field_nonempty :: "string \<Rightarrow> json \<Rightarrow> bool" where
  "field_nonempty k m = (case field k m of None \<Rightarrow> False | Some v \<Rightarrow> truthy v)"

text \<open>Every \<^verbatim>\<open>tool_calls\<close> entry of every message that has a sequence of them, flattened in order.\<close>

definition tool_call_entries :: "json list \<Rightarrow> json list" where
  "tool_call_entries msgs =
     concat (map (\<lambda>m. case field ''tool_calls'' m of Some (JArray tcs) \<Rightarrow> tcs | _ \<Rightarrow> []) msgs)"

text \<open>\<^verbatim>\<open>function.name\<close> of an entry, \<^verbatim>\<open>"unknown"\<close> when it is missing.\<close>

definition function_name_or_unknown :: "json \<Rightarrow> json" where
  "function_name_or_unknown tc =
     (case field ''function'' tc of
        None \<Rightarrow> JString ''unknown''
      | Some f \<Rightarrow> (case field ''name'' f of None \<Rightarrow> JString ''unknown'' | Some n \<Rightarrow> n))"

text \<open>The names the specification's sentence counts: one for each entry.\<close>

definition spec_tool_names :: "json list \<Rightarrow> json list" where
  "spec_tool_names msgs = map function_name_or_unknown (tool_call_entries msgs)"

text \<open>The names the code counts: one for each entry that has a \<^verbatim>\<open>function\<close> key.\<close>

definition has_function :: "json \<Rightarrow> bool" where
  "has_function tc = (field ''function'' tc \<noteq> None)"

definition counted_tool_names :: "json list \<Rightarrow> json list" where
  "counted_tool_names msgs =
     map function_name_or_unknown (filter has_function (tool_call_entries msgs))"

text \<open>
  A conversation shaped as the data model says: each message a mapping with \<^verbatim>\<open>role\<close> and
  \<^verbatim>\<open>content\<close>, its \<^verbatim>\<open>tool_calls\<close> absent, falsy or a sequence of mappings whose \<^verbatim>\<open>function\<close>,
  when present, is a mapping whose \<^verbatim>\<open>name\<close>, when present, is a string.
\<close>

definition wf_tool_call :: "json \<Rightarrow> bool" where
  "wf_tool_call tc =
     (is_mapping tc \<and>
      (case field ''function'' tc of
         None \<Rightarrow> True
       | Some f \<Rightarrow> is_mapping f \<and> (case field ''name'' f of None \<Rightarrow> True | Some n \<Rightarrow> is_string n)))"

definition wf_message :: "json \<Rightarrow> bool" where
  "wf_message m =
     (is_message m \<and>
      (case field ''tool_calls'' m of
         None \<Rightarrow> True
       | Some (JArray tcs) \<Rightarrow> list_all wf_tool_call tcs
       | Some v \<Rightarrow> \<not> truthy v))"

text \<open>
  The bold-stripping the specification's sentence describes: the content between the markers
  is any non-empty text.
\<close>

definition spec_strip_bold :: "string \<Rightarrow> string" where
  "spec_strip_bold s = sub_bold (\<lambda>c. True) s"

section \<open>The average content length per role\<close>

text \<open>
  Modelled from the spec: line 63 is one expression of the pandas library,
  \<^verbatim>\<open>df.groupby('role')['content'].apply(lambda x: x.str.len().mean())\<close>, and none of that code
  is in the repository. The spec's words are "group by role, compute mean of string length of
  content". What they leave to the library follows the library's documentation:
  \<^item> a row whose role is null belongs to no group;
  \<^item> \<^verbatim>\<open>.str\<close> refuses a group whose non-null contents are all numbers or all booleans, with
    the \<^verbatim>\<open>AttributeError\<close> "Can only use .str accessor with string values!", which ends the
    whole computation;
  \<^item> \<^verbatim>\<open>.len()\<close> gives the length of a string, a list or a mapping and NaN for anything else;
  \<^item> \<^verbatim>\<open>.mean()\<close> leaves the NaN entries out and is NaN when nothing is left.
  The table lists the roles in the order of their first occurrence (the library sorts them),
  the mean is the exact quotient (the library rounds it to a double), and a text is measured
  in the characters of this model. Roles are taken to be strings, and a not-a-number literal
  as content is not modelled.
\<close>

definition cell :: "string \<Rightarrow> json \<Rightarrow> json" where
  "cell k m = (case field k m of Some v \<Rightarrow> v | None \<Rightarrow> JNull)"

fun is_number :: "json \<Rightarrow> bool" where
  "is_number (JInt i) = True"
| "is_number (JFloat f) = True"
| "is_number v = False"

fun is_bool :: "json \<Rightarrow> bool" where
  "is_bool (JBool b) = True"
| "is_bool v = False"

fun str_len :: "json \<Rightarrow> nat option" where
  "str_len (JString s) = Some (length s)"
| "str_len (JArray xs) = Some (length xs)"
| "str_len (JObject kvs) = Some (length kvs)"
| "str_len v = None"

definition str_accessor_refuses :: "json list \<Rightarrow> bool" where
  "str_accessor_refuses xs =
     (let vs = filter (\<lambda>v. v \<noteq> JNull) xs
      in vs \<noteq> [] \<and> (list_all is_number vs \<or> list_all is_bool vs))"

definition mean_len :: "json list \<Rightarrow> pyfloat" where
  "mean_len xs =
     (let ls = List.map_filter str_len xs
      in if ls = [] then NaN else Finite (of_nat (sum_list ls) / of_nat (length ls)))"

definition roles_of :: "json list \<Rightarrow> json list" where
  "roles_of msgs = filter (\<lambda>r. r \<noteq> JNull) (rev (remdups (rev (map (cell ''role'') msgs))))"

definition group_contents :: "json \<Rightarrow> json list \<Rightarrow> json list" where
  "group_contents r msgs = map (cell ''content'') (filter (\<lambda>m. cell ''role'' m = r) msgs)"

definition str_accessor_error :: exn where
  "str_accessor_error = AttributeError ''Can only use .str accessor with string values!''"

definition avg_length_by_role :: "json list \<Rightarrow> exn + (json \<times> pyfloat) list" where
  "avg_length_by_role msgs =
     (if list_ex (\<lambda>r. str_accessor_refuses (group_contents r msgs)) (roles_of msgs)
      then Inl str_accessor_error
      else Inr (map (\<lambda>r. (r, mean_len (group_contents r msgs))) (roles_of msgs)))"

text \<open>
  The messages the model of the average is meant for: mappings with a string as \<^verbatim>\<open>role\<close> and a
  \<^verbatim>\<open>content\<close> that is no not-a-number literal.
\<close>

definition avg_scope :: "json \<Rightarrow> bool" where
  "avg_scope m = (is_message m \<and> is_string (cell ''role'' m) \<and> cell ''content'' m \<noteq> JFloat NaN)"

section \<open>Validation and upload: proofs\<close>

lemma and_then_Inl [simp]: "and_then (Inl e) f = Inl e"
  by (simp add: and_then_def)

lemma and_then_Inr [simp]: "and_then (Inr x) f = f x"
  by (simp add: and_then_def)

lemma passes_check_mapping: "is_mapping m \<Longrightarrow> passes_check m = is_message m"
  by (cases m) (auto simp: passes_check_def is_message_def map_of_eq_None_iff)

lemma py_in_supported: "supports_membership m \<Longrightarrow> \<exists>b. py_in k m = Inr b"
  by (cases m) simp_all

lemma py_in_unsupported:
  "\<not> supports_membership m \<Longrightarrow>
   py_in k m = Inl (TypeError (''argument of type '' @ [CHR 0x27] @ type_name m @ [CHR 0x27] @ '' is not iterable''))"
  by (cases m) simp_all

text \<open>One round of the loop: a message that passes lets the loop go on, any other ends it.\<close>

lemma check_messages_step:
  "check_messages (m # rest) =
     (if passes_check m then check_messages rest
      else and_then (py_in ''content'' m) (\<lambda>_. Inr False))"
proof (cases "supports_membership m")
  case True
  then obtain c r where "py_in ''content'' m = Inr c" "py_in ''role'' m = Inr r"
    using py_in_supported by blast
  then show ?thesis by (auto simp: passes_check_def)
next
  case False
  then show ?thesis by (simp add: py_in_unsupported passes_check_def)
qed

lemma check_messages_pass: "\<forall>m\<in>set xs. passes_check m \<Longrightarrow> check_messages xs = Inr True"
  by (induction xs) (simp_all add: check_messages_step del: check_messages.simps(2))

lemma check_messages_first_failure:
  assumes "\<forall>m\<in>set pre. passes_check m" and "\<not> passes_check x"
  shows "check_messages (pre @ x # post) = and_then (py_in ''content'' x) (\<lambda>_. Inr False)"
  using assms by (induction pre) (simp_all add: check_messages_step del: check_messages.simps(2))

lemma first_failure_split:
  assumes "\<exists>m\<in>set xs. \<not> P m"
  shows "\<exists>pre x post. xs = pre @ x # post \<and> (\<forall>m\<in>set pre. P m) \<and> \<not> P x"
proof -
  from assms have "dropWhile P xs \<noteq> []" by auto
  then obtain x post where d: "dropWhile P xs = x # post" by (cases "dropWhile P xs") auto
  then have "\<not> P x" using hd_dropWhile[of P xs] by auto
  moreover have "xs = takeWhile P xs @ x # post" using d takeWhile_dropWhile_id[of P xs] by simp
  moreover have "\<forall>m\<in>set (takeWhile P xs). P m" by (auto dest: set_takeWhileD)
  ultimately show ?thesis by blast
qed

lemma check_messages_True_iff: "check_messages xs = Inr True \<longleftrightarrow> (\<forall>m\<in>set xs. passes_check m)"
proof
  assume ok: "check_messages xs = Inr True"
  show "\<forall>m\<in>set xs. passes_check m"
  proof (rule ccontr)
    assume "\<not> (\<forall>m\<in>set xs. passes_check m)"
    then have "\<exists>m\<in>set xs. \<not> passes_check m" by simp
    from first_failure_split[OF this] obtain pre x post where
      "xs = pre @ x # post" "\<forall>m\<in>set pre. passes_check m" "\<not> passes_check x" by blast
    then have "check_messages xs = and_then (py_in ''content'' x) (\<lambda>_. Inr False)"
      by (simp add: check_messages_first_failure)
    with ok show False by (cases "py_in ''content'' x") simp_all
  qed
qed (rule check_messages_pass)

lemma parse_conversation_nonlist:
  "\<not> is_list data \<Longrightarrow> parse_conversation data = ([Error not_a_list_msg], [])"
  by (cases data) (simp_all add: parse_conversation_def)

lemma parse_conversation_pass:
  "xs \<noteq> [] \<Longrightarrow> \<forall>m\<in>set xs. passes_check m \<Longrightarrow> parse_conversation (JArray xs) = ([], xs)"
  by (simp add: parse_conversation_def check_messages_pass)

lemma parse_conversation_first_failure:
  assumes "\<forall>m\<in>set pre. passes_check m" and "\<not> passes_check x"
  shows "parse_conversation (JArray (pre @ x # post)) =
           (case py_in ''content'' x of
              Inl e \<Rightarrow> ([Error (parse_error_msg e)], [])
            | Inr b \<Rightarrow> ([Error missing_field_msg], []))"
  using check_messages_first_failure[OF assms, of post]
  by (cases "py_in ''content'' x") (simp_all add: parse_conversation_def)

lemma parse_conversation_reject:
  assumes "\<exists>m\<in>set xs. \<not> passes_check m"
  shows "\<exists>msg. parse_conversation (JArray xs) = ([Error msg], [])"
proof -
  from first_failure_split[OF assms] obtain pre x post where
    "xs = pre @ x # post" "\<forall>m\<in>set pre. passes_check m" "\<not> passes_check x" by blast
  then show ?thesis
    by (cases "py_in ''content'' x") (simp_all add: parse_conversation_first_failure)
qed

lemma parse_conversation_admits:
  assumes "parse_conversation data = (shown, msgs)" and "msgs \<noteq> []"
  shows "\<forall>m\<in>set msgs. passes_check m"
proof (cases data)
  case (JArray xs)
  with assms have "check_messages xs = Inr True \<and> msgs = xs"
    by (auto simp: parse_conversation_def split: if_splits sum.splits bool.splits)
  then show ?thesis by (simp add: check_messages_True_iff)
qed (use assms in \<open>simp_all add: parse_conversation_def\<close>)

lemma main_upload_rejected:
  "parse_conversation data = (shown, []) \<Longrightarrow> main_upload (Some (Inr data)) s = (shown, s)"
  by (simp add: main_upload_def)

lemma main_upload_accepted:
  "parse_conversation data = (shown, msgs) \<Longrightarrow> msgs \<noteq> [] \<Longrightarrow>
   main_upload (Some (Inr data)) s =
     (shown @ [Success ''File uploaded successfully!''],
      s\<lparr>messages := msgs, conversation_history := msgs\<rparr>)"
  by (simp add: main_upload_def)

lemma main_upload_keeps_checked:
  assumes "\<forall>m\<in>set (messages s). passes_check m"
  shows "\<forall>m\<in>set (messages (snd (main_upload u s))). passes_check m"
proof (cases u)
  case None
  with assms show ?thesis by (simp add: main_upload_def)
next
  case (Some loaded)
  show ?thesis
  proof (cases loaded)
    case (Inl e)
    with Some assms show ?thesis by (simp add: main_upload_def)
  next
    case (Inr data)
    obtain shown msgs where p: "parse_conversation data = (shown, msgs)"
      by (cases "parse_conversation data")
    show ?thesis
    proof (cases "msgs = []")
      case True
      with Some Inr p assms show ?thesis by (simp add: main_upload_def)
    next
      case False
      with p have "\<forall>m\<in>set msgs. passes_check m" by (rule parse_conversation_admits)
      with Some Inr p False show ?thesis by (simp add: main_upload_def)
    qed
  qed
qed

lemma reachable_checked: "reachable s \<Longrightarrow> \<forall>m\<in>set (messages s). passes_check m"
proof (induction rule: reachable.induct)
  case start
  show ?case by (simp add: init_session_def)
next
  case (upload s u)
  from upload.IH show ?case by (rule main_upload_keeps_checked)
qed

text \<open>
  C1 (as amended). For every non-empty list of mappings that each have a \<^verbatim>\<open>role\<close> and a
  \<^verbatim>\<open>content\<close> key, \<^verbatim>\<open>parse_conversation\<close> reports no error and returns the input list itself,
  so order and length are those of the input, and the upload step installs it as the
  session's conversation.
\<close>

theorem valid_list_is_accepted:
  assumes "xs \<noteq> []" and "\<forall>m\<in>set xs. is_message m"
  shows "parse_conversation (JArray xs) = ([], xs) \<and>
         main_upload (Some (Inr (JArray xs))) s =
           ([Success ''File uploaded successfully!''],
            s\<lparr>messages := xs, conversation_history := xs\<rparr>)"
proof -
  from assms(2) have "\<forall>m\<in>set xs. passes_check m"
    by (auto simp: is_message_def passes_check_mapping)
  with assms(1) have p: "parse_conversation (JArray xs) = ([], xs)"
    by (rule parse_conversation_pass)
  with assms(1) show ?thesis by (simp add: main_upload_accepted)
qed

theorem valid_list_is_accepted_witness:
  "[JObject [(''role'', JString ''user''), (''content'', JString ''hi'')],
    JObject [(''content'', JString []), (''role'', JString ''assistant'')]] \<noteq> [] \<and>
   list_all is_message
     [JObject [(''role'', JString ''user''), (''content'', JString ''hi'')],
      JObject [(''content'', JString []), (''role'', JString ''assistant'')]] \<and>
   parse_conversation (JArray
     [JObject [(''role'', JString ''user''), (''content'', JString ''hi'')],
      JObject [(''content'', JString []), (''role'', JString ''assistant'')]]) =
     ([], [JObject [(''role'', JString ''user''), (''content'', JString ''hi'')],
           JObject [(''content'', JString []), (''role'', JString ''assistant'')]]) \<and>
   messages (snd (main_upload (Some (Inr (JArray
     [JObject [(''role'', JString ''user''), (''content'', JString ''hi'')],
      JObject [(''content'', JString []), (''role'', JString ''assistant'')]]))) init_session)) =
     [JObject [(''role'', JString ''user''), (''content'', JString ''hi'')],
      JObject [(''content'', JString []), (''role'', JString ''assistant'')]]"
  using valid_list_is_accepted
    [of "[JObject [(''role'', JString ''user''), (''content'', JString ''hi'')],
          JObject [(''content'', JString []), (''role'', JString ''assistant'')]]" init_session]
  by (simp add: is_message_def)

text \<open>
  C1 as stated fails at the empty list: every element of \<open>[]\<close> is a valid message, yet the
  guard \<^verbatim>\<open>if not messages\<close> reports the "expected a list" error.
\<close>

theorem empty_list_is_rejected:
  "list_all is_message [] \<and>
   parse_conversation (JArray []) = ([Error not_a_list_msg], []) \<and>
   fst (parse_conversation (JArray [])) \<noteq> []"
  by (simp add: parse_conversation_def)

text \<open>
  C3. For every JSON root that is not a list, \<^verbatim>\<open>parse_conversation\<close> reports exactly the error
  "Invalid conversation format. Expected a list of messages." and returns the empty list,
  and the upload step leaves the session state as it was.
\<close>

theorem non_list_root_is_rejected:
  assumes "\<not> is_list data"
  shows "parse_conversation data = ([Error not_a_list_msg], []) \<and>
         main_upload (Some (Inr data)) s = ([Error not_a_list_msg], s)"
  using assms by (simp add: parse_conversation_nonlist main_upload_rejected)

theorem non_list_root_is_rejected_witness:
  "\<not> is_list (JObject [(''role'', JString ''user''), (''content'', JString ''hi'')]) \<and>
   \<not> is_list (JInt 5) \<and> \<not> is_list (JString ''hello'') \<and> \<not> is_list JNull \<and>
   parse_conversation (JObject [(''role'', JString ''user''), (''content'', JString ''hi'')]) =
     ([Error not_a_list_msg], []) \<and>
   parse_conversation (JInt 5) = ([Error not_a_list_msg], []) \<and>
   parse_conversation (JString ''hello'') = ([Error not_a_list_msg], []) \<and>
   parse_conversation JNull = ([Error not_a_list_msg], []) \<and>
   main_upload (Some (Inr JNull))
     \<lparr>messages = [JString ''kept''], conversation_history = [JString ''kept'']\<rparr> =
     ([Error not_a_list_msg],
      \<lparr>messages = [JString ''kept''], conversation_history = [JString ''kept'']\<rparr>)"
  using non_list_root_is_rejected
      [of "JObject [(''role'', JString ''user''), (''content'', JString ''hi'')]" init_session]
    non_list_root_is_rejected [of "JInt 5" init_session]
    non_list_root_is_rejected [of "JString ''hello''" init_session]
    non_list_root_is_rejected
      [of JNull "\<lparr>messages = [JString ''kept''], conversation_history = [JString ''kept'']\<rparr>"]
  by simp

text \<open>
  C2 (as amended). Every element of the session's conversation passes the membership test
  for both \<^verbatim>\<open>content\<close> and \<^verbatim>\<open>role\<close>; for a mapping that is having both keys. If any element
  of an uploaded list fails the test, the batch is rejected as a whole: exactly one error is
  reported, nothing is admitted and the session state is unchanged. The error is
  "Invalid message format. Each message must have 'content' and 'role' fields." when the
  first failing element is one the membership operator is defined on.
\<close>

theorem upload_is_all_or_nothing:
  "(reachable s \<longrightarrow> (\<forall>m\<in>set (messages s). passes_check m)) \<and>
   (is_mapping m \<longrightarrow> passes_check m = is_message m) \<and>
   ((\<exists>m\<in>set xs. \<not> passes_check m) \<longrightarrow>
      (\<exists>msg. parse_conversation (JArray xs) = ([Error msg], []) \<and>
             main_upload (Some (Inr (JArray xs))) s' = ([Error msg], s'))) \<and>
   ((\<forall>m\<in>set pre. passes_check m) \<and> \<not> passes_check x \<and> supports_membership x \<longrightarrow>
      parse_conversation (JArray (pre @ x # post)) = ([Error missing_field_msg], []))"
proof (intro conjI impI)
  assume "reachable s"
  then show "\<forall>m\<in>set (messages s). passes_check m" by (rule reachable_checked)
next
  assume "is_mapping m"
  then show "passes_check m = is_message m" by (rule passes_check_mapping)
next
  assume "\<exists>m\<in>set xs. \<not> passes_check m"
  then obtain msg where "parse_conversation (JArray xs) = ([Error msg], [])"
    using parse_conversation_reject by blast
  then show "\<exists>msg. parse_conversation (JArray xs) = ([Error msg], []) \<and>
                   main_upload (Some (Inr (JArray xs))) s' = ([Error msg], s')"
    by (auto simp: main_upload_rejected)
next
  assume a: "(\<forall>m\<in>set pre. passes_check m) \<and> \<not> passes_check x \<and> supports_membership x"
  then obtain b where "py_in ''content'' x = Inr b" using py_in_supported by blast
  with a show "parse_conversation (JArray (pre @ x # post)) = ([Error missing_field_msg], [])"
    by (simp add: parse_conversation_first_failure)
qed

theorem upload_is_all_or_nothing_witness:
  "reachable (snd (main_upload (Some (Inr (JArray
       [JObject [(''role'', JString ''user''), (''content'', JString ''hi'')]]))) init_session)) \<and>
   messages (snd (main_upload (Some (Inr (JArray
       [JObject [(''role'', JString ''user''), (''content'', JString ''hi'')]]))) init_session)) =
     [JObject [(''role'', JString ''user''), (''content'', JString ''hi'')]] \<and>
   passes_check (JObject [(''role'', JString ''user''), (''content'', JString ''hi'')]) \<and>
   is_message (JObject [(''role'', JString ''user''), (''content'', JString ''hi'')]) \<and>
   \<not> passes_check (JObject [(''role'', JString ''user'')]) \<and>
   parse_conversation (JArray
       [JObject [(''role'', JString ''user''), (''content'', JString ''hi'')],
        JObject [(''role'', JString ''user'')]]) = ([Error missing_field_msg], []) \<and>
   main_upload (Some (Inr (JArray
       [JObject [(''role'', JString ''user''), (''content'', JString ''hi'')],
        JObject [(''role'', JString ''user'')]])))
     \<lparr>messages = [JString ''kept''], conversation_history = [JString ''kept'']\<rparr> =
     ([Error missing_field_msg],
      \<lparr>messages = [JString ''kept''], conversation_history = [JString ''kept'']\<rparr>)"
proof -
  let ?ok = "JObject [(''role'', JString ''user''), (''content'', JString ''hi'')]"
  let ?bad = "JObject [(''role'', JString ''user'')]"
  let ?s0 = "\<lparr>messages = [JString ''kept''], conversation_history = [JString ''kept'']\<rparr>"
  let ?s1 = "snd (main_upload (Some (Inr (JArray [?ok]))) init_session)"
  have r: "reachable ?s1" by (rule reachable.upload [OF reachable.start])
  have ok: "passes_check ?ok" and bad: "\<not> passes_check ?bad"
    by (simp_all add: passes_check_def)
  have m: "messages ?s1 = [?ok]"
    using ok by (simp add: main_upload_def parse_conversation_pass)
  note t = upload_is_all_or_nothing [of ?s1 ?ok "[?ok, ?bad]" ?s0 "[?ok]" ?bad "[]"]
  from t r m have "passes_check ?ok" by simp
  moreover from t have "is_message ?ok" using ok by simp
  moreover from t ok bad have p: "parse_conversation (JArray [?ok, ?bad]) = ([Error missing_field_msg], [])"
    by simp
  moreover from t bad p have "main_upload (Some (Inr (JArray [?ok, ?bad]))) ?s0 = ([Error missing_field_msg], ?s0)"
    by auto
  ultimately show ?thesis using r m bad by simp
qed

text \<open>
  C2 as stated fails twice. A list of one string that contains both words is admitted, so
  the session's conversation holds an element that is no mapping with the two keys; and when
  a number stands before a mapping that lacks both keys, the error reported is the generic
  one, not the missing-field message.
\<close>

theorem upload_is_all_or_nothing_counterexample:
  "messages (snd (main_upload (Some (Inr (JArray [JString ''content role'']))) init_session)) =
     [JString ''content role''] \<and>
   \<not> is_message (JString ''content role'') \<and>
   is_mapping (JObject []) \<and> \<not> is_message (JObject []) \<and>
   parse_conversation (JArray [JInt 1, JObject []]) =
     ([Error (''Error parsing data: argument of type '' @ [CHR 0x27] @ ''int'' @ [CHR 0x27]
              @ '' is not iterable'')], []) \<and>
   fst (parse_conversation (JArray [JInt 1, JObject []])) \<noteq> [Error missing_field_msg]"
  by (simp add: main_upload_def parse_conversation_def sublist_code is_message_def
      parse_error_msg_def missing_field_msg_def)

text \<open>
  C9 (as amended). Some list whose elements are not mappings passes validation. Every
  non-empty list whose elements are all strings that each contain both "content" and "role"
  as substrings passes it, although none of its elements is a mapping, and the upload step
  installs it as the session's conversation.
\<close>

theorem string_elements_pass_validation:
  assumes "xs \<noteq> []"
    and "\<forall>x\<in>set xs. \<exists>t. x = JString t \<and> sublist ''content'' t \<and> sublist ''role'' t"
  shows "(\<forall>x\<in>set xs. \<not> is_mapping x) \<and>
         parse_conversation (JArray xs) = ([], xs) \<and>
         main_upload (Some (Inr (JArray xs))) s =
           ([Success ''File uploaded successfully!''],
            s\<lparr>messages := xs, conversation_history := xs\<rparr>) \<and>
         (\<exists>ys. ys \<noteq> [] \<and> list_all (\<lambda>y. \<not> is_mapping y) ys \<and>
               parse_conversation (JArray ys) = ([], ys))"
proof -
  from assms(2) have "\<forall>x\<in>set xs. passes_check x"
    by (auto simp: passes_check_def)
  with assms(1) have p: "parse_conversation (JArray xs) = ([], xs)"
    by (rule parse_conversation_pass)
  moreover from assms(2) have n: "\<forall>x\<in>set xs. \<not> is_mapping x" by auto
  moreover from assms(1) n p
  have "\<exists>ys. ys \<noteq> [] \<and> list_all (\<lambda>y. \<not> is_mapping y) ys \<and>
             parse_conversation (JArray ys) = ([], ys)"
    by (auto simp: list_all_iff)
  ultimately show ?thesis using assms(1) by (simp add: main_upload_accepted)
qed

theorem string_elements_pass_validation_witness:
  "\<not> is_mapping (JString ''content role'') \<and>
   \<not> is_mapping (JString ''my role is content'') \<and>
   parse_conversation (JArray [JString ''content role'', JString ''my role is content'']) =
     ([], [JString ''content role'', JString ''my role is content'']) \<and>
   messages (snd (main_upload
       (Some (Inr (JArray [JString ''content role'', JString ''my role is content''])))
       init_session)) =
     [JString ''content role'', JString ''my role is content'']"
proof -
  have h: "\<forall>x\<in>set [JString ''content role'', JString ''my role is content''].
             \<exists>t. x = JString t \<and> sublist ''content'' t \<and> sublist ''role'' t"
    by (simp add: sublist_code)
  show ?thesis
    using string_elements_pass_validation
      [of "[JString ''content role'', JString ''my role is content'']" init_session, OF _ h]
    by simp
qed

text \<open>
  C9 as stated fails at the empty list, whose elements are all such strings: it is
  rejected, and the session keeps the conversation it had.
\<close>

theorem string_elements_counterexample:
  "list_all (\<lambda>x. is_string x \<and> passes_check x) [] \<and>
   fst (parse_conversation (JArray [])) = [Error not_a_list_msg] \<and>
   messages (snd (main_upload (Some (Inr (JArray [])))
       \<lparr>messages = [JString ''kept''], conversation_history = [JString ''kept'']\<rparr>)) \<noteq> []"
  by (simp add: parse_conversation_def main_upload_def)

text \<open>
  C10 (as amended). When the first element of the list that does not pass the check is one
  the membership operator is not defined on (a number, a boolean or null), the loop raises,
  the handler reports "Error parsing data: " followed by the exception's text as the only
  message, the empty list is returned and the upload step leaves the session state as it was.
\<close>

theorem unsupported_element_gives_generic_error:
  assumes "\<forall>m\<in>set pre. passes_check m" and "\<not> supports_membership x"
  shows "\<exists>e. check_messages (pre @ x # post) = Inl e \<and>
             parse_conversation (JArray (pre @ x # post)) =
               ([Error (''Error parsing data: '' @ exn_str e)], []) \<and>
             main_upload (Some (Inr (JArray (pre @ x # post)))) s =
               ([Error (''Error parsing data: '' @ exn_str e)], s)"
proof -
  from assms(2) obtain e where e: "py_in ''content'' x = Inl e"
    using py_in_unsupported by blast
  then have n: "\<not> passes_check x" by (simp add: passes_check_def)
  from check_messages_first_failure[OF assms(1) n, of post] e
  have "check_messages (pre @ x # post) = Inl e" by simp
  moreover from parse_conversation_first_failure[OF assms(1) n, of post] e
  have "parse_conversation (JArray (pre @ x # post)) =
          ([Error (''Error parsing data: '' @ exn_str e)], [])"
    by (simp add: parse_error_msg_def)
  ultimately show ?thesis by (auto simp: main_upload_rejected)
qed

theorem unsupported_element_gives_generic_error_witness:
  "passes_check (JObject [(''role'', JString ''user''), (''content'', JString ''hi'')]) \<and>
   \<not> supports_membership (JInt 1) \<and>
   (\<exists>e. check_messages
           [JObject [(''role'', JString ''user''), (''content'', JString ''hi'')], JInt 1, JObject []] =
           Inl e \<and>
         parse_conversation (JArray
           [JObject [(''role'', JString ''user''), (''content'', JString ''hi'')], JInt 1, JObject []]) =
           ([Error (''Error parsing data: '' @ exn_str e)], []) \<and>
         main_upload (Some (Inr (JArray
           [JObject [(''role'', JString ''user''), (''content'', JString ''hi'')], JInt 1, JObject []])))
           \<lparr>messages = [JString ''kept''], conversation_history = [JString ''kept'']\<rparr> =
           ([Error (''Error parsing data: '' @ exn_str e)],
            \<lparr>messages = [JString ''kept''], conversation_history = [JString ''kept'']\<rparr>))"
proof -
  have h: "\<forall>m\<in>set [JObject [(''role'', JString ''user''), (''content'', JString ''hi'')]].
             passes_check m"
    by (simp add: passes_check_def)
  have u: "\<not> supports_membership (JInt 1)" by simp
  show ?thesis
    using unsupported_element_gives_generic_error [OF h u, of "[JObject []]"
        "\<lparr>messages = [JString ''kept''], conversation_history = [JString ''kept'']\<rparr>"] h
    by simp
qed

text \<open>
  C10 as stated fails when a mapping without the keys stands before the number: the loop
  returns at the mapping and the missing-field message is reported, not the generic one.
\<close>

theorem unsupported_element_counterexample:
  "\<not> list_all supports_membership [JObject [], JInt 1] \<and>
   parse_conversation (JArray [JObject [], JInt 1]) = ([Error missing_field_msg], []) \<and>
   \<not> prefix ''Error parsing data: '' missing_field_msg"
  by (simp add: parse_conversation_def missing_field_msg_def)

section \<open>Analysis: proofs\<close>

lemma has_truthy_field_mapping:
  "is_mapping m \<Longrightarrow> has_truthy_field k m = Inr (field_nonempty k m)"
proof (cases m)
  case (JObject kvs)
  show ?thesis
  proof (cases "map_of kvs k")
    case None
    then have "k \<notin> fst ` set kvs" by (simp add: map_of_eq_None_iff)
    with None JObject show ?thesis by (simp add: has_truthy_field_def field_nonempty_def)
  next
    case (Some v)
    then have "k \<in> fst ` set kvs" by (metis map_of_eq_None_iff option.distinct(1))
    with Some JObject show ?thesis by (simp add: has_truthy_field_def field_nonempty_def)
  qed
qed simp_all

lemma count_messages_with_mappings:
  "\<forall>m\<in>set msgs. is_mapping m \<Longrightarrow>
   count_messages_with k msgs = Inr (length (filter (field_nonempty k) msgs))"
  by (induction msgs) (simp_all add: has_truthy_field_mapping)

lemma wf_message_is_mapping: "wf_message m \<Longrightarrow> is_mapping m"
  by (simp add: wf_message_def is_message_def)

lemma names_of_entries_wf:
  "list_all wf_tool_call tcs \<Longrightarrow>
   names_of_entries tcs = Inr (map function_name_or_unknown (filter has_function tcs))"
proof (induction tcs)
  case Nil
  show ?case by simp
next
  case (Cons tc tcs)
  from Cons.prems have wf: "wf_tool_call tc" and rest: "list_all wf_tool_call tcs" by simp_all
  from wf obtain kvs where tc: "tc = JObject kvs" by (cases tc) (simp_all add: wf_tool_call_def)
  have step: "and_then (py_in ''function'' tc) (\<lambda>present.
         if present then
            and_then (py_getitem tc ''function'') (\<lambda>f.
              and_then (py_get f ''name'' (JString ''unknown'')) (\<lambda>n. Inr [n]))
         else Inr []) =
       Inr (if has_function tc then [function_name_or_unknown tc] else [])"
  proof (cases "map_of kvs ''function''")
    case None
    then have "''function'' \<notin> fst ` set kvs" by (simp add: map_of_eq_None_iff)
    with None tc show ?thesis by (simp add: has_function_def)
  next
    case (Some f)
    then have "''function'' \<in> fst ` set kvs" by (metis map_of_eq_None_iff option.distinct(1))
    moreover from wf tc Some obtain fkvs where "f = JObject fkvs"
      by (cases f) (simp_all add: wf_tool_call_def)
    ultimately show ?thesis using Some tc
      by (simp add: has_function_def function_name_or_unknown_def split: option.splits)
  qed
  have "names_of_entries (tc # tcs) =
          and_then (and_then (py_in ''function'' tc) (\<lambda>present.
             if present then
                and_then (py_getitem tc ''function'') (\<lambda>f.
                  and_then (py_get f ''name'' (JString ''unknown'')) (\<lambda>n. Inr [n]))
             else Inr []))
           (\<lambda>ns. and_then (names_of_entries tcs) (\<lambda>more. Inr (ns @ more)))"
    by (cases "py_in ''function'' tc") simp_all
  with step Cons.IH[OF rest] show ?case by simp
qed

lemma tool_call_names_wf:
  "\<forall>m\<in>set msgs. wf_message m \<Longrightarrow> tool_call_names msgs = Inr (counted_tool_names msgs)"
proof (induction msgs)
  case Nil
  show ?case by (simp add: counted_tool_names_def tool_call_entries_def)
next
  case (Cons m msgs)
  from Cons.prems have wf: "wf_message m" and rest: "\<forall>m\<in>set msgs. wf_message m" by simp_all
  from wf obtain kvs where m: "m = JObject kvs"
    by (cases m) (simp_all add: wf_message_def is_message_def)
  let ?own = "case field ''tool_calls'' m of Some (JArray tcs) \<Rightarrow> tcs | _ \<Rightarrow> []"
  have own: "and_then (has_truthy_field ''tool_calls'' m) (\<lambda>b.
          if b then and_then (py_getitem m ''tool_calls'') (\<lambda>tcs. and_then (py_iter tcs) names_of_entries)
          else Inr []) =
        Inr (map function_name_or_unknown (filter has_function ?own))"
  proof (cases "map_of kvs ''tool_calls''")
    case None
    with m show ?thesis by (simp add: has_truthy_field_mapping field_nonempty_def)
  next
    case (Some v)
    show ?thesis
    proof (cases "truthy v")
      case False
      with Some m show ?thesis
        by (cases v) (simp_all add: has_truthy_field_mapping field_nonempty_def)
    next
      case True
      with wf m Some obtain tcs where v: "v = JArray tcs" and tcs: "list_all wf_tool_call tcs"
        by (cases v) (simp_all add: wf_message_def)
      with Some m True show ?thesis
        by (simp add: has_truthy_field_mapping field_nonempty_def names_of_entries_wf)
    qed
  qed
  have "tool_call_names (m # msgs) =
          and_then (and_then (has_truthy_field ''tool_calls'' m) (\<lambda>b.
             if b then and_then (py_getitem m ''tool_calls'') (\<lambda>tcs. and_then (py_iter tcs) names_of_entries)
             else Inr []))
           (\<lambda>ns. and_then (tool_call_names msgs) (\<lambda>more. Inr (ns @ more)))"
    by (cases "has_truthy_field ''tool_calls'' m") simp_all
  with own Cons.IH[OF rest] show ?case
    by (simp add: counted_tool_names_def tool_call_entries_def)
qed

text \<open>The frequency table: which values it lists, with which counts, in which order.\<close>

lemma value_counts_set: "set (value_counts xs) = (\<lambda>x. (x, count_list xs x)) ` set xs"
  by (simp add: value_counts_def)

lemma value_counts_names: "set (map fst (value_counts xs)) = set xs"
  by (force simp: value_counts_set)

lemma value_counts_distinct: "distinct (map fst (value_counts xs))"
proof -
  have "mset (map fst (value_counts xs)) = mset (rev (remdups (rev xs)))"
    by (simp add: value_counts_def image_mset.compositionality comp_def)
  moreover have "distinct (rev (remdups (rev xs)))" by simp
  ultimately show ?thesis by (metis mset_eq_imp_distinct_iff)
qed

lemma value_counts_descending: "sorted_wrt (\<lambda>a b. b \<le> a) (map snd (value_counts xs))"
proof -
  have "sorted (map (\<lambda>p. - int (snd p)) (value_counts xs))"
    unfolding value_counts_def by (rule sorted_sort_key)
  then show ?thesis by (simp add: sorted_map sorted_wrt_map)
qed

lemma analyze_conversation_wf:
  assumes "\<forall>m\<in>set msgs. wf_message m" and "msgs \<noteq> []"
    and "role_value_counts pd msgs = Inr mc" and "role_avg_length pd msgs = Inr al"
  shows "analyze_conversation pd msgs =
           Inr (Some mc, Some al, Some (length (filter (field_nonempty ''tool_calls'') msgs)),
                if counted_tool_names msgs = [] then None
                else Some (value_counts (counted_tool_names msgs)))"
proof -
  from assms(1) have maps: "\<forall>m\<in>set msgs. is_mapping m" by (auto dest: wf_message_is_mapping)
  show ?thesis
    using assms(2-4)
    by (simp add: analyze_conversation_def count_messages_with_mappings[OF maps]
        tool_call_names_wf[OF assms(1)])
qed

lemma analyze_conversation_count:
  assumes "\<forall>m\<in>set msgs. is_mapping m" and "msgs \<noteq> []"
    and "analyze_conversation pd msgs = Inr r"
  shows "fst (snd (snd r)) = Some (length (filter (field_nonempty ''tool_calls'') msgs))"
proof -
  from assms(3) show ?thesis
    using assms(2)
    by (auto simp: analyze_conversation_def count_messages_with_mappings[OF assms(1)] and_then_def
        split: sum.splits if_splits)
qed

text \<open>
  C5. For every conversation of mappings, the tool-call count of line 59 is the number of
  messages whose \<^verbatim>\<open>tool_calls\<close> field is present and non-empty (not falsy); it is the third
  component of every result the analysis returns, and the analysis does return it on a
  conversation shaped as the data model says. A message whose \<^verbatim>\<open>tool_calls\<close> is the empty
  sequence contributes 0, one with at least one entry contributes 1 however many entries
  there are, and one without the key contributes 0.
\<close>

theorem tool_call_count_counts_nonempty_fields:
  assumes "\<forall>m\<in>set msgs. is_mapping m"
  shows "count_messages_with ''tool_calls'' msgs =
           Inr (length (filter (field_nonempty ''tool_calls'') msgs)) \<and>
         (msgs \<noteq> [] \<and> analyze_conversation pd msgs = Inr r \<longrightarrow>
            fst (snd (snd r)) = Some (length (filter (field_nonempty ''tool_calls'') msgs))) \<and>
         ((\<forall>m\<in>set msgs. wf_message m) \<and> msgs \<noteq> [] \<and>
          role_value_counts pd msgs = Inr mc \<and> role_avg_length pd msgs = Inr al \<longrightarrow>
            (\<exists>td. analyze_conversation pd msgs =
               Inr (Some mc, Some al,
                    Some (length (filter (field_nonempty ''tool_calls'') msgs)), td))) \<and>
         (field ''tool_calls'' m = Some (JArray []) \<longrightarrow>
            count_messages_with ''tool_calls'' [m] = Inr 0) \<and>
         (field ''tool_calls'' m = Some (JArray (tc # tcs)) \<longrightarrow>
            count_messages_with ''tool_calls'' [m] = Inr 1) \<and>
         (is_mapping m \<and> field ''tool_calls'' m = None \<longrightarrow>
            count_messages_with ''tool_calls'' [m] = Inr 0)"
proof (intro conjI impI)
  show "count_messages_with ''tool_calls'' msgs =
          Inr (length (filter (field_nonempty ''tool_calls'') msgs))"
    using assms by (rule count_messages_with_mappings)
next
  assume "msgs \<noteq> [] \<and> analyze_conversation pd msgs = Inr r"
  with assms show "fst (snd (snd r)) = Some (length (filter (field_nonempty ''tool_calls'') msgs))"
    by (auto intro: analyze_conversation_count)
next
  assume "(\<forall>m\<in>set msgs. wf_message m) \<and> msgs \<noteq> [] \<and>
          role_value_counts pd msgs = Inr mc \<and> role_avg_length pd msgs = Inr al"
  then show "\<exists>td. analyze_conversation pd msgs =
               Inr (Some mc, Some al,
                    Some (length (filter (field_nonempty ''tool_calls'') msgs)), td)"
    by (simp add: analyze_conversation_wf)
next
  assume f: "field ''tool_calls'' m = Some (JArray [])"
  then have "is_mapping m" by (cases m) simp_all
  with f show "count_messages_with ''tool_calls'' [m] = Inr 0"
    by (simp add: has_truthy_field_mapping field_nonempty_def)
next
  assume f: "field ''tool_calls'' m = Some (JArray (tc # tcs))"
  then have "is_mapping m" by (cases m) simp_all
  with f show "count_messages_with ''tool_calls'' [m] = Inr 1"
    by (simp add: has_truthy_field_mapping field_nonempty_def)
next
  assume "is_mapping m \<and> field ''tool_calls'' m = None"
  then show "count_messages_with ''tool_calls'' [m] = Inr 0"
    by (simp add: has_truthy_field_mapping field_nonempty_def)
qed

theorem tool_call_count_counts_nonempty_fields_witness:
  "count_messages_with ''tool_calls''
     [JObject [(''role'', JString ''user''), (''content'', JString ''hi'')],
      JObject [(''role'', JString ''assistant''), (''content'', JString ''''), (''tool_calls'', JArray [])],
      JObject [(''role'', JString ''assistant''), (''content'', JString ''''),
               (''tool_calls'', JArray [JObject [(''function'', JObject [(''name'', JString ''search'')])],
                                        JObject [(''function'', JObject [(''name'', JString ''fetch'')])]])]]
     = Inr 1 \<and>
   count_messages_with ''tool_calls''
     [JObject [(''role'', JString ''user''), (''content'', JString ''hi'')]] = Inr 0 \<and>
   count_messages_with ''tool_calls''
     [JObject [(''role'', JString ''assistant''), (''content'', JString ''''), (''tool_calls'', JArray [])]]
     = Inr 0 \<and>
   count_messages_with ''tool_calls''
     [JObject [(''role'', JString ''assistant''), (''content'', JString ''''),
               (''tool_calls'', JArray [JObject [(''function'', JObject [(''name'', JString ''search'')])],
                                        JObject [(''function'', JObject [(''name'', JString ''fetch'')])]])]]
     = Inr 1 \<and>
   (\<exists>td. analyze_conversation \<lparr>role_value_counts = (\<lambda>ms. Inr ()), role_avg_length = (\<lambda>ms. Inr ())\<rparr>
     [JObject [(''role'', JString ''user''), (''content'', JString ''hi'')],
      JObject [(''role'', JString ''assistant''), (''content'', JString ''''), (''tool_calls'', JArray [])],
      JObject [(''role'', JString ''assistant''), (''content'', JString ''''),
               (''tool_calls'', JArray [JObject [(''function'', JObject [(''name'', JString ''search'')])],
                                        JObject [(''function'', JObject [(''name'', JString ''fetch'')])]])]]
     = Inr (Some (), Some (), Some 1, td))"
proof -
  let ?plain = "JObject [(''role'', JString ''user''), (''content'', JString ''hi'')]"
  let ?none = "JObject [(''role'', JString ''assistant''), (''content'', JString ''''),
                        (''tool_calls'', JArray [])]"
  let ?tc1 = "JObject [(''function'', JObject [(''name'', JString ''search'')])]"
  let ?tc2 = "JObject [(''function'', JObject [(''name'', JString ''fetch'')])]"
  let ?two = "JObject [(''role'', JString ''assistant''), (''content'', JString ''''),
                       (''tool_calls'', JArray [?tc1, ?tc2])]"
  let ?pd = "\<lparr>role_value_counts = (\<lambda>ms. Inr ()), role_avg_length = (\<lambda>ms. Inr ())\<rparr>
               :: (unit, unit) pandas"
  let ?msgs = "[?plain, ?none, ?two]"
  have maps: "\<forall>m\<in>set ?msgs. is_mapping m" by simp
  have wf: "\<forall>m\<in>set ?msgs. wf_message m"
    by (simp add: wf_message_def is_message_def wf_tool_call_def)
  have n: "length (filter (field_nonempty ''tool_calls'') ?msgs) = 1"
    by (simp add: field_nonempty_def)
  note t = tool_call_count_counts_nonempty_fields [OF maps, where pd = ?pd and mc = "()" and al = "()"]
  have a: "count_messages_with ''tool_calls'' ?msgs = Inr 1"
    using t [THEN conjunct1] by (simp only: n)
  have pre: "(\<forall>m\<in>set ?msgs. wf_message m) \<and> ?msgs \<noteq> [] \<and>
             role_value_counts ?pd ?msgs = Inr () \<and> role_avg_length ?pd ?msgs = Inr ()"
    using wf by simp
  have b: "\<exists>td. analyze_conversation ?pd ?msgs = Inr (Some (), Some (), Some 1, td)"
    using t [THEN conjunct2, THEN conjunct2, THEN conjunct1, THEN mp, OF pre] by (simp only: n)
  have c: "count_messages_with ''tool_calls'' [?plain] = Inr 0"
    by (rule t [where m = ?plain, THEN conjunct2, THEN conjunct2, THEN conjunct2,
          THEN conjunct2, THEN conjunct2, THEN mp]) simp
  have d: "count_messages_with ''tool_calls'' [?none] = Inr 0"
    by (rule t [where m = ?none, THEN conjunct2, THEN conjunct2, THEN conjunct2,
          THEN conjunct1, THEN mp]) simp
  have e: "count_messages_with ''tool_calls'' [?two] = Inr 1"
    by (rule t [where m = ?two and tc = ?tc1 and tcs = "[?tc2]", THEN conjunct2, THEN conjunct2,
          THEN conjunct2, THEN conjunct2, THEN conjunct1, THEN mp]) simp
  from a b c d e show ?thesis by blast
qed

text \<open>
  C6. The analysis computes the tool-response count and drops it: the returned tuple has
  the role counts, the average lengths, the tool-call count and the tool-name distribution.
  On a conversation of one message with one tool response, the count of line 60 is 1 and
  the result carries the tool-call count 0 and no distribution.
\<close>

theorem tool_response_count_is_not_returned:
  "count_messages_with ''tool_responses''
     [JObject [(''role'', JString ''assistant''), (''content'', JString ''done''),
               (''tool_responses'', JArray [JObject [(''content'', JString ''ok'')]])]] = Inr 1 \<and>
   analyze_conversation pd
     [JObject [(''role'', JString ''assistant''), (''content'', JString ''done''),
               (''tool_responses'', JArray [JObject [(''content'', JString ''ok'')]])]] =
     and_then (role_value_counts pd
       [JObject [(''role'', JString ''assistant''), (''content'', JString ''done''),
                 (''tool_responses'', JArray [JObject [(''content'', JString ''ok'')]])]])
       (\<lambda>message_counts.
     and_then (role_avg_length pd
       [JObject [(''role'', JString ''assistant''), (''content'', JString ''done''),
                 (''tool_responses'', JArray [JObject [(''content'', JString ''ok'')]])]])
       (\<lambda>avg_length. Inr (Some message_counts, Some avg_length, Some 0, None)))"
  by (simp add: analyze_conversation_def has_truthy_field_def)

text \<open>
  C4 (as amended). On a conversation shaped as the data model says, the loop of lines 66 to
  71 collects, over every entry of every non-empty \<^verbatim>\<open>tool_calls\<close> sequence in order, one name
  for each entry that has a \<^verbatim>\<open>function\<close> key: its \<^verbatim>\<open>function.name\<close>, or "unknown" when the name is
  missing. An entry without a \<^verbatim>\<open>function\<close> key is skipped. The distribution lists each distinct
  name once with the number of its occurrences, in descending order of count, and it is the
  absent marker exactly when no name was collected. The three entries of the specification's
  example, spread over any messages, give search: 2, unknown: 1.
\<close>

theorem tool_distribution_counts_function_names:
  assumes "\<forall>m\<in>set msgs. wf_message m" and "msgs \<noteq> []"
    and "role_value_counts pd msgs = Inr mc" and "role_avg_length pd msgs = Inr al"
  shows "tool_call_names msgs = Inr (counted_tool_names msgs) \<and>
         analyze_conversation pd msgs =
           Inr (Some mc, Some al, Some (length (filter (field_nonempty ''tool_calls'') msgs)),
                if counted_tool_names msgs = [] then None
                else Some (value_counts (counted_tool_names msgs))) \<and>
         distinct (map fst (value_counts (counted_tool_names msgs))) \<and>
         set (map fst (value_counts (counted_tool_names msgs))) = set (counted_tool_names msgs) \<and>
         (\<forall>p\<in>set (value_counts (counted_tool_names msgs)).
            snd p = count_list (counted_tool_names msgs) (fst p)) \<and>
         sorted_wrt (\<lambda>a b. b \<le> a) (map snd (value_counts (counted_tool_names msgs))) \<and>
         (tool_call_entries msgs =
            [JObject [(''function'', JObject [(''name'', JString ''search'')])],
             JObject [(''function'', JObject [])],
             JObject [(''function'', JObject [(''name'', JString ''search'')])]] \<longrightarrow>
          analyze_conversation pd msgs =
            Inr (Some mc, Some al, Some (length (filter (field_nonempty ''tool_calls'') msgs)),
                 Some [(JString ''search'', 2), (JString ''unknown'', 1)]))"
proof (intro conjI impI)
  show "tool_call_names msgs = Inr (counted_tool_names msgs)"
    using assms(1) by (rule tool_call_names_wf)
next
  show a: "analyze_conversation pd msgs =
           Inr (Some mc, Some al, Some (length (filter (field_nonempty ''tool_calls'') msgs)),
                if counted_tool_names msgs = [] then None
                else Some (value_counts (counted_tool_names msgs)))"
    using assms by (rule analyze_conversation_wf)
  assume e: "tool_call_entries msgs =
            [JObject [(''function'', JObject [(''name'', JString ''search'')])],
             JObject [(''function'', JObject [])],
             JObject [(''function'', JObject [(''name'', JString ''search'')])]]"
  have "counted_tool_names msgs = [JString ''search'', JString ''unknown'', JString ''search'']"
    by (simp add: counted_tool_names_def e has_function_def function_name_or_unknown_def)
  with a show "analyze_conversation pd msgs =
            Inr (Some mc, Some al, Some (length (filter (field_nonempty ''tool_calls'') msgs)),
                 Some [(JString ''search'', 2), (JString ''unknown'', 1)])"
    by (simp add: value_counts_def)
next
  show "distinct (map fst (value_counts (counted_tool_names msgs)))"
    by (rule value_counts_distinct)
next
  show "set (map fst (value_counts (counted_tool_names msgs))) = set (counted_tool_names msgs)"
    by (rule value_counts_names)
next
  show "\<forall>p\<in>set (value_counts (counted_tool_names msgs)).
            snd p = count_list (counted_tool_names msgs) (fst p)"
    by (auto simp: value_counts_set)
next
  show "sorted_wrt (\<lambda>a b. b \<le> a) (map snd (value_counts (counted_tool_names msgs)))"
    by (rule value_counts_descending)
qed

theorem tool_distribution_counts_function_names_witness:
  "list_all wf_message
     [JObject [(''role'', JString ''assistant''), (''content'', JString ''''),
               (''tool_calls'', JArray
                  [JObject [(''function'', JObject [(''name'', JString ''search'')])],
                   JObject [(''function'', JObject [])]])],
      JObject [(''role'', JString ''user''), (''content'', JString ''more'')],
      JObject [(''role'', JString ''assistant''), (''content'', JString ''''),
               (''tool_calls'', JArray
                  [JObject [(''function'', JObject [(''name'', JString ''search'')])]])]] \<and>
   tool_call_names
     [JObject [(''role'', JString ''assistant''), (''content'', JString ''''),
               (''tool_calls'', JArray
                  [JObject [(''function'', JObject [(''name'', JString ''search'')])],
                   JObject [(''function'', JObject [])]])],
      JObject [(''role'', JString ''user''), (''content'', JString ''more'')],
      JObject [(''role'', JString ''assistant''), (''content'', JString ''''),
               (''tool_calls'', JArray
                  [JObject [(''function'', JObject [(''name'', JString ''search'')])]])]] =
     Inr [JString ''search'', JString ''unknown'', JString ''search''] \<and>
   analyze_conversation \<lparr>role_value_counts = (\<lambda>ms. Inr ()), role_avg_length = (\<lambda>ms. Inr ())\<rparr>
     [JObject [(''role'', JString ''assistant''), (''content'', JString ''''),
               (''tool_calls'', JArray
                  [JObject [(''function'', JObject [(''name'', JString ''search'')])],
                   JObject [(''function'', JObject [])]])],
      JObject [(''role'', JString ''user''), (''content'', JString ''more'')],
      JObject [(''role'', JString ''assistant''), (''content'', JString ''''),
               (''tool_calls'', JArray
                  [JObject [(''function'', JObject [(''name'', JString ''search'')])]])]] =
     Inr (Some (), Some (), Some 2, Some [(JString ''search'', 2), (JString ''unknown'', 1)])"
proof -
  let ?s = "JObject [(''function'', JObject [(''name'', JString ''search'')])]"
  let ?u = "JObject [(''function'', JObject [])]"
  let ?m1 = "JObject [(''role'', JString ''assistant''), (''content'', JString ''''),
                      (''tool_calls'', JArray [?s, ?u])]"
  let ?m2 = "JObject [(''role'', JString ''user''), (''content'', JString ''more'')]"
  let ?m3 = "JObject [(''role'', JString ''assistant''), (''content'', JString ''''),
                      (''tool_calls'', JArray [?s])]"
  let ?msgs = "[?m1, ?m2, ?m3]"
  let ?pd = "\<lparr>role_value_counts = (\<lambda>ms. Inr ()), role_avg_length = (\<lambda>ms. Inr ())\<rparr>
               :: (unit, unit) pandas"
  have wf: "\<forall>m\<in>set ?msgs. wf_message m"
    by (simp add: wf_message_def is_message_def wf_tool_call_def)
  have ne: "?msgs \<noteq> []" by simp
  have mc: "role_value_counts ?pd ?msgs = Inr ()" and al: "role_avg_length ?pd ?msgs = Inr ()"
    by simp_all
  have entries: "tool_call_entries ?msgs = [?s, ?u, ?s]"
    by (simp add: tool_call_entries_def)
  have names: "counted_tool_names ?msgs = [JString ''search'', JString ''unknown'', JString ''search'']"
    by (simp add: counted_tool_names_def entries has_function_def function_name_or_unknown_def)
  have n: "length (filter (field_nonempty ''tool_calls'') ?msgs) = 2"
    by (simp add: field_nonempty_def)
  note t = tool_distribution_counts_function_names [OF wf ne mc al]
  have a: "tool_call_names ?msgs = Inr [JString ''search'', JString ''unknown'', JString ''search'']"
    using t [THEN conjunct1] by (simp only: names)
  have b: "analyze_conversation ?pd ?msgs =
             Inr (Some (), Some (), Some 2, Some [(JString ''search'', 2), (JString ''unknown'', 1)])"
    using t [THEN conjunct2, THEN conjunct2, THEN conjunct2, THEN conjunct2, THEN conjunct2,
        THEN conjunct2, THEN mp, OF entries]
    by (simp only: n)
  from wf have "list_all wf_message ?msgs" by (simp only: list_all_iff)
  with a b show ?thesis by blast
qed

text \<open>
  C4 as stated fails on an entry that has no \<^verbatim>\<open>function\<close> key: the sentence gives it the name
  "unknown", the code skips it, and with no other entry the distribution is the absent marker
  although a \<^verbatim>\<open>tool_calls\<close> entry exists.
\<close>

theorem tool_distribution_counterexample:
  "list_all wf_message
     [JObject [(''role'', JString ''assistant''), (''content'', JString ''''),
               (''tool_calls'', JArray [JObject [(''id'', JString ''call_1'')]])]] \<and>
   tool_call_entries
     [JObject [(''role'', JString ''assistant''), (''content'', JString ''''),
               (''tool_calls'', JArray [JObject [(''id'', JString ''call_1'')]])]] =
     [JObject [(''id'', JString ''call_1'')]] \<and>
   spec_tool_names
     [JObject [(''role'', JString ''assistant''), (''content'', JString ''''),
               (''tool_calls'', JArray [JObject [(''id'', JString ''call_1'')]])]] =
     [JString ''unknown''] \<and>
   tool_call_names
     [JObject [(''role'', JString ''assistant''), (''content'', JString ''''),
               (''tool_calls'', JArray [JObject [(''id'', JString ''call_1'')]])]] = Inr [] \<and>
   analyze_conversation \<lparr>role_value_counts = (\<lambda>ms. Inr ()), role_avg_length = (\<lambda>ms. Inr ())\<rparr>
     [JObject [(''role'', JString ''assistant''), (''content'', JString ''''),
               (''tool_calls'', JArray [JObject [(''id'', JString ''call_1'')]])]] =
     Inr (Some (), Some (), Some 1, None)"
  by (simp add: wf_message_def is_message_def wf_tool_call_def tool_call_entries_def
      spec_tool_names_def function_name_or_unknown_def has_truthy_field_def
      analyze_conversation_def)

section \<open>The average content length per role: proofs\<close>

lemma roles_of_member:
  "m \<in> set msgs \<Longrightarrow> cell ''role'' m \<noteq> JNull \<Longrightarrow> cell ''role'' m \<in> set (roles_of msgs)"
  by (simp add: roles_of_def)

lemma avg_scope_role: "avg_scope m \<Longrightarrow> cell ''role'' m \<noteq> JNull"
  by (cases "cell ''role'' m") (simp_all add: avg_scope_def)

lemma map_of_table: "r \<in> set rs \<Longrightarrow> map_of (map (\<lambda>r. (r, f r)) rs) r = Some (f r)"
  by (induction rs) auto

lemma map_filter_str_len_strings: "List.map_filter str_len (map JString ss) = map length ss"
  by (induction ss) (simp_all add: List.map_filter_simps)

lemma map_filter_str_len_none:
  "\<forall>c\<in>set cs. str_len c = None \<Longrightarrow> List.map_filter str_len cs = []"
  by (induction cs) (simp_all add: List.map_filter_simps)

lemma mean_len_strings:
  "ss \<noteq> [] \<Longrightarrow>
   mean_len (map JString ss) = Finite (of_nat (sum_list (map length ss)) / of_nat (length ss))"
  by (simp add: mean_len_def map_filter_str_len_strings)

lemma mean_len_no_length: "\<forall>c\<in>set cs. str_len c = None \<Longrightarrow> mean_len cs = NaN"
  by (simp add: mean_len_def map_filter_str_len_none)

lemma null_group_accepted: "\<forall>c\<in>set cs. c = JNull \<Longrightarrow> \<not> str_accessor_refuses cs"
proof -
  assume "\<forall>c\<in>set cs. c = JNull"
  then have "filter (\<lambda>v. v \<noteq> JNull) cs = []" by (induction cs) simp_all
  then show ?thesis by (simp add: str_accessor_refuses_def)
qed

lemma str_accessor_refuses_iff:
  "str_accessor_refuses cs =
     ((\<exists>c\<in>set cs. c \<noteq> JNull) \<and>
      ((\<forall>c\<in>set cs. c = JNull \<or> is_number c) \<or> (\<forall>c\<in>set cs. c = JNull \<or> is_bool c)))"
  by (auto simp: str_accessor_refuses_def Let_def list_all_iff filter_empty_conv)

lemma avg_length_by_role_refused:
  assumes "\<forall>m\<in>set msgs. avg_scope m"
    and "\<exists>m\<in>set msgs. str_accessor_refuses (group_contents (cell ''role'' m) msgs)"
  shows "avg_length_by_role msgs = Inl str_accessor_error"
proof -
  from assms(2) obtain m where m: "m \<in> set msgs"
    and r: "str_accessor_refuses (group_contents (cell ''role'' m) msgs)" by blast
  from assms(1) m have "cell ''role'' m \<noteq> JNull" by (simp add: avg_scope_role)
  with m have "cell ''role'' m \<in> set (roles_of msgs)" by (rule roles_of_member)
  with r have "list_ex (\<lambda>r. str_accessor_refuses (group_contents r msgs)) (roles_of msgs)"
    by (auto simp: list_ex_iff)
  then show ?thesis by (simp add: avg_length_by_role_def)
qed

lemma roles_of_occur: "r \<in> set (roles_of msgs) \<Longrightarrow> \<exists>m\<in>set msgs. cell ''role'' m = r"
  by (auto simp: roles_of_def)

lemma avg_length_by_role_table:
  assumes "\<forall>m\<in>set msgs. avg_scope m"
    and "\<forall>m\<in>set msgs. \<not> str_accessor_refuses (group_contents (cell ''role'' m) msgs)"
  shows "\<exists>table. avg_length_by_role msgs = Inr table \<and>
          (\<forall>m\<in>set msgs. map_of table (cell ''role'' m) =
                           Some (mean_len (group_contents (cell ''role'' m) msgs)))"
proof -
  let ?table = "map (\<lambda>r. (r, mean_len (group_contents r msgs))) (roles_of msgs)"
  from assms(2) have "\<not> list_ex (\<lambda>r. str_accessor_refuses (group_contents r msgs)) (roles_of msgs)"
    by (auto simp: list_ex_iff dest: roles_of_occur)
  then have "avg_length_by_role msgs = Inr ?table" by (simp add: avg_length_by_role_def)
  moreover have "\<forall>m\<in>set msgs. map_of ?table (cell ''role'' m) =
                   Some (mean_len (group_contents (cell ''role'' m) msgs))"
  proof
    fix m assume m: "m \<in> set msgs"
    with assms(1) have "cell ''role'' m \<noteq> JNull" by (simp add: avg_scope_role)
    with m have "cell ''role'' m \<in> set (roles_of msgs)" by (rule roles_of_member)
    then show "map_of ?table (cell ''role'' m) =
                 Some (mean_len (group_contents (cell ''role'' m) msgs))"
      by (rule map_of_table)
  qed
  ultimately show ?thesis by blast
qed

lemma analyze_conversation_avg_error:
  assumes "\<forall>m\<in>set msgs. is_mapping m" and "msgs \<noteq> []"
    and "role_value_counts pd msgs = Inr mc" and "role_avg_length pd msgs = Inl e"
  shows "analyze_conversation pd msgs = Inl e"
  using assms(2-4)
  by (simp add: analyze_conversation_def count_messages_with_mappings[OF assms(1)])

text \<open>
  C8 (as amended). The metric groups the messages by role and computes, for each role, the
  mean of the lengths of its contents that have a length; for a role whose contents are
  strings this is the mean of their string lengths. A role none of whose contents has a
  length (null, a number, a boolean) yields NaN, and a role whose contents are all null is
  never refused. When the contents of some role that are not null are all numbers or all
  booleans, no role gets an average: the computation raises an AttributeError, which the
  analysis passes on.
\<close>

theorem avg_length_is_mean_or_nan_or_error:
  assumes "\<forall>m\<in>set msgs. avg_scope m"
  shows "((\<forall>m\<in>set msgs. \<not> str_accessor_refuses (group_contents (cell ''role'' m) msgs)) \<longrightarrow>
            (\<exists>table. avg_length_by_role msgs = Inr table \<and>
               (\<forall>m\<in>set msgs. map_of table (cell ''role'' m) =
                                Some (mean_len (group_contents (cell ''role'' m) msgs))))) \<and>
         (ss \<noteq> [] \<longrightarrow>
            mean_len (map JString ss) =
              Finite (of_nat (sum_list (map length ss)) / of_nat (length ss))) \<and>
         ((\<forall>c\<in>set cs. str_len c = None) \<longrightarrow> mean_len cs = NaN) \<and>
         ((\<forall>c\<in>set cs. c = JNull) \<longrightarrow> \<not> str_accessor_refuses cs) \<and>
         (str_accessor_refuses cs =
            ((\<exists>c\<in>set cs. c \<noteq> JNull) \<and>
             ((\<forall>c\<in>set cs. c = JNull \<or> is_number c) \<or>
              (\<forall>c\<in>set cs. c = JNull \<or> is_bool c)))) \<and>
         ((\<exists>m\<in>set msgs. str_accessor_refuses (group_contents (cell ''role'' m) msgs)) \<longrightarrow>
            avg_length_by_role msgs = Inl str_accessor_error \<and>
            (role_avg_length pd = avg_length_by_role \<and> role_value_counts pd msgs = Inr mc \<longrightarrow>
               analyze_conversation pd msgs = Inl str_accessor_error))"
proof (intro conjI impI)
  assume "\<forall>m\<in>set msgs. \<not> str_accessor_refuses (group_contents (cell ''role'' m) msgs)"
  with assms show "\<exists>table. avg_length_by_role msgs = Inr table \<and>
               (\<forall>m\<in>set msgs. map_of table (cell ''role'' m) =
                                Some (mean_len (group_contents (cell ''role'' m) msgs)))"
    by (rule avg_length_by_role_table)
next
  assume "ss \<noteq> []"
  then show "mean_len (map JString ss) =
              Finite (of_nat (sum_list (map length ss)) / of_nat (length ss))"
    by (rule mean_len_strings)
next
  assume "\<forall>c\<in>set cs. str_len c = None"
  then show "mean_len cs = NaN" by (rule mean_len_no_length)
next
  assume "\<forall>c\<in>set cs. c = JNull"
  then show "\<not> str_accessor_refuses cs" by (rule null_group_accepted)
next
  show "str_accessor_refuses cs =
          ((\<exists>c\<in>set cs. c \<noteq> JNull) \<and>
           ((\<forall>c\<in>set cs. c = JNull \<or> is_number c) \<or>
            (\<forall>c\<in>set cs. c = JNull \<or> is_bool c)))"
    by (rule str_accessor_refuses_iff)
next
  assume r: "\<exists>m\<in>set msgs. str_accessor_refuses (group_contents (cell ''role'' m) msgs)"
  with assms show e: "avg_length_by_role msgs = Inl str_accessor_error"
    by (rule avg_length_by_role_refused)
  assume p: "role_avg_length pd = avg_length_by_role \<and> role_value_counts pd msgs = Inr mc"
  from assms have maps: "\<forall>m\<in>set msgs. is_mapping m" by (auto simp: avg_scope_def is_message_def)
  from r have ne: "msgs \<noteq> []" by auto
  from p e have "role_avg_length pd msgs = Inl str_accessor_error" by simp
  with maps ne p show "analyze_conversation pd msgs = Inl str_accessor_error"
    by (auto intro: analyze_conversation_avg_error)
qed

theorem avg_length_is_mean_or_nan_or_error_witness:
  "(\<exists>table.
      avg_length_by_role
        [JObject [(''role'', JString ''user''), (''content'', JString ''hello'')],
         JObject [(''role'', JString ''assistant''), (''content'', JNull)],
         JObject [(''role'', JString ''user''), (''content'', JString ''hi'')]] = Inr table \<and>
      map_of table (JString ''user'') = Some (Finite (7 / 2)) \<and>
      map_of table (JString ''assistant'') = Some NaN) \<and>
   mean_len (map JString [''hello'', ''hi'']) = Finite (7 / 2) \<and>
   mean_len [JNull, JInt 5, JBool True] = NaN \<and>
   \<not> str_accessor_refuses [JNull, JNull] \<and>
   str_accessor_refuses [JInt 5, JNull, JFloat (Finite (5 / 2))] \<and>
   str_accessor_refuses [JBool True, JBool False] \<and>
   \<not> str_accessor_refuses [JInt 5, JString ''five''] \<and>
   avg_length_by_role
     [JObject [(''role'', JString ''user''), (''content'', JString ''hello'')],
      JObject [(''role'', JString ''assistant''), (''content'', JInt 5)]] = Inl str_accessor_error \<and>
   analyze_conversation
     \<lparr>role_value_counts = (\<lambda>ms. Inr ()), role_avg_length = avg_length_by_role\<rparr>
     [JObject [(''role'', JString ''user''), (''content'', JString ''hello'')],
      JObject [(''role'', JString ''assistant''), (''content'', JInt 5)]] = Inl str_accessor_error"
proof -
  let ?u1 = "JObject [(''role'', JString ''user''), (''content'', JString ''hello'')]"
  let ?a1 = "JObject [(''role'', JString ''assistant''), (''content'', JNull)]"
  let ?u2 = "JObject [(''role'', JString ''user''), (''content'', JString ''hi'')]"
  let ?a2 = "JObject [(''role'', JString ''assistant''), (''content'', JInt 5)]"
  let ?ok = "[?u1, ?a1, ?u2]"
  let ?bad = "[?u1, ?a2]"
  let ?pd = "\<lparr>role_value_counts = (\<lambda>ms. Inr ()), role_avg_length = avg_length_by_role\<rparr>
               :: (unit, (json \<times> pyfloat) list) pandas"
  have s_ok: "\<forall>m\<in>set ?ok. avg_scope m" and s_bad: "\<forall>m\<in>set ?bad. avg_scope m"
    by (simp_all add: avg_scope_def is_message_def cell_def)
  have accepted: "\<forall>m\<in>set ?ok. \<not> str_accessor_refuses (group_contents (cell ''role'' m) ?ok)"
    by (simp add: cell_def group_contents_def str_accessor_refuses_def)
  have refused: "\<exists>m\<in>set ?bad. str_accessor_refuses (group_contents (cell ''role'' m) ?bad)"
    by (simp add: cell_def group_contents_def str_accessor_refuses_def)
  note t_ok = avg_length_is_mean_or_nan_or_error [OF s_ok]
  note t_bad = avg_length_is_mean_or_nan_or_error [OF s_bad, where pd = ?pd and mc = "()"]
  from t_ok [THEN conjunct1, THEN mp, OF accepted] obtain table
    where tb: "avg_length_by_role ?ok = Inr table"
      and lk: "\<forall>m\<in>set ?ok. map_of table (cell ''role'' m) =
                 Some (mean_len (group_contents (cell ''role'' m) ?ok))"
    by blast
  from lk have "map_of table (JString ''user'') = Some (Finite (7 / 2))"
    and "map_of table (JString ''assistant'') = Some NaN"
    by (simp_all add: cell_def group_contents_def mean_len_def List.map_filter_simps)
  with tb have a: "\<exists>table. avg_length_by_role ?ok = Inr table \<and>
      map_of table (JString ''user'') = Some (Finite (7 / 2)) \<and>
      map_of table (JString ''assistant'') = Some NaN"
    by blast
  have b: "mean_len (map JString [''hello'', ''hi'']) = Finite (7 / 2)"
    using t_ok [where ss = "[''hello'', ''hi'']", THEN conjunct2, THEN conjunct1] by simp
  have c: "mean_len [JNull, JInt 5, JBool True] = NaN"
    by (rule t_ok [where cs = "[JNull, JInt 5, JBool True]", THEN conjunct2, THEN conjunct2,
          THEN conjunct1, THEN mp]) simp
  have d: "\<not> str_accessor_refuses [JNull, JNull]"
    by (rule t_ok [where cs = "[JNull, JNull]", THEN conjunct2, THEN conjunct2, THEN conjunct2,
          THEN conjunct1, THEN mp]) simp
  have e: "str_accessor_refuses [JInt 5, JNull, JFloat (Finite (5 / 2))]"
    and e': "str_accessor_refuses [JBool True, JBool False]"
    and e'': "\<not> str_accessor_refuses [JInt 5, JString ''five'']"
    using t_ok [where cs = "[JInt 5, JNull, JFloat (Finite (5 / 2))]", THEN conjunct2,
        THEN conjunct2, THEN conjunct2, THEN conjunct2, THEN conjunct1]
      t_ok [where cs = "[JBool True, JBool False]", THEN conjunct2,
        THEN conjunct2, THEN conjunct2, THEN conjunct2, THEN conjunct1]
      t_ok [where cs = "[JInt 5, JString ''five'']", THEN conjunct2,
        THEN conjunct2, THEN conjunct2, THEN conjunct2, THEN conjunct1]
    by simp_all
  note last = t_bad [THEN conjunct2, THEN conjunct2, THEN conjunct2, THEN conjunct2,
      THEN conjunct2, THEN mp, OF refused]
  have f: "avg_length_by_role ?bad = Inl str_accessor_error"
    by (rule last [THEN conjunct1])
  have g: "analyze_conversation ?pd ?bad = Inl str_accessor_error"
    by (rule last [THEN conjunct2, THEN mp]) simp
  from a b c d e e' e'' f g show ?thesis by blast
qed

text \<open>
  C8 as stated fails on content that is not a string. A role whose content is the number 5
  gets no NaN: the computation raises. A role whose content is a list of three elements gets
  the average 3.
\<close>

theorem avg_length_counterexample:
  "list_all avg_scope [JObject [(''role'', JString ''user''), (''content'', JInt 5)]] \<and>
   avg_length_by_role [JObject [(''role'', JString ''user''), (''content'', JInt 5)]] =
     Inl (AttributeError ''Can only use .str accessor with string values!'') \<and>
   list_all avg_scope
     [JObject [(''role'', JString ''user''),
               (''content'', JArray [JString ''a'', JString ''b'', JString ''c''])]] \<and>
   avg_length_by_role
     [JObject [(''role'', JString ''user''),
               (''content'', JArray [JString ''a'', JString ''b'', JString ''c''])]] =
     Inr [(JString ''user'', Finite 3)]"
  by (simp add: avg_scope_def is_message_def cell_def avg_length_by_role_def roles_of_def
      group_contents_def str_accessor_refuses_def str_accessor_error_def mean_len_def
      List.map_filter_simps)

section \<open>Text normalisation: proofs\<close>

text \<open>
  C7. The comment of line 18 and the claim agree that bold markup is removed; the code does
  not remove it when the content between the markers holds a line feed, because the
  pattern's \<^verbatim>\<open>.\<close> does not match one. The text "**a", line feed, "b**" is returned as it is,
  where the sentence gives "a", line feed, "b"; with a further "c**" after it the closing
  marker of the first span is taken as the opening of a span around "c". On one line the
  examples of the claim hold, a marker that is never closed is kept, and null and the empty
  text are returned unchanged.
\<close>

theorem normalize_text_keeps_multiline_bold:
  "normalize_text (JString (''**a'' @ [CHR 0x0A] @ ''b**'')) =
     Inr (JString (''**a'' @ [CHR 0x0A] @ ''b**'')) \<and>
   spec_strip_bold (''**a'' @ [CHR 0x0A] @ ''b**'') = ''a'' @ [CHR 0x0A] @ ''b'' \<and>
   normalize_text (JString (''**a'' @ [CHR 0x0A] @ ''b**c**'')) =
     Inr (JString (''**a'' @ [CHR 0x0A] @ ''bc'')) \<and>
   normalize_text (JString (''**'' @ [CHR 0x0A] @ ''b**'')) =
     Inr (JString (''**'' @ [CHR 0x0A] @ ''b**'')) \<and>
   normalize_text (JString ''say **bold'') = Inr (JString ''say **bold'') \<and>
   normalize_text (JString ''**bold** and plain'') = Inr (JString ''bold and plain'') \<and>
   normalize_text (JString ''*not bold*'') = Inr (JString ''*not bold*'') \<and>
   normalize_text (JString ''**Bold** TEXT'') = Inr (JString ''Bold TEXT'') \<and>
   normalize_text JNull = Inr JNull \<and>
   normalize_text (JString []) = Inr (JString [])"
  by (simp add: normalize_text_def re_sub_bold_def re_dot_def spec_strip_bold_def)

end
